theory Spec2Isabelle
  imports Complex_Main "HOL-Library.Word"
begin

unbundle bit_operations_syntax

section \<open>Python values and exceptions\<close>

text \<open>
  The source is \<^verbatim>\<open>src/osupyparser/osr/osr_parser.py\<close>. It defines no exception of
  its own: what can go wrong surfaces as one of Python's built-in exceptions, which
  are the constructors of \<open>error\<close>. A function that can raise returns \<open>error + 'a\<close>,
  with \<open>Inl\<close> for the exception. A method that changes its object takes the
  object's attributes and returns them changed; when it raises, only the exception
  is returned, not the state the object was left in.
\<close>

datatype error =
    TypeError | UnicodeDecodeError | OverflowError | ValueError | IndexError
  | LZMAError | StructError | AttributeError | UnboundLocalError | ZeroDivisionError

type_synonym byte = "8 word"

text \<open>
  \<^verbatim>\<open>xs[a:b]\<close> on a sequence, for integers \<open>a\<close> and \<open>b\<close>: a negative index counts from
  the end, both indices are clamped to the sequence, and an empty range gives the
  empty sequence. Slicing never raises.
\<close>

definition slice_index :: "nat \<Rightarrow> int \<Rightarrow> nat" where
  "slice_index n i = (if i < 0 then nat (max (i + int n) 0) else min (nat i) n)"

definition py_slice :: "'a list \<Rightarrow> int \<Rightarrow> int \<Rightarrow> 'a list" where
  "py_slice xs a b =
     (let lo = slice_index (length xs) a; hi = slice_index (length xs) b
      in take (hi - lo) (drop lo xs))"

text \<open>\<^verbatim>\<open>int.from_bytes(bs, "little", signed=...)\<close>; the empty byte string gives 0.\<close>

fun le_uint :: "byte list \<Rightarrow> int" where
  "le_uint [] = 0"
| "le_uint (b # bs) = uint b + 256 * le_uint bs"

definition int_from_bytes :: "byte list \<Rightarrow> bool \<Rightarrow> int" where
  "int_from_bytes bs is_signed =
     (let u = le_uint bs
      in if is_signed \<and> bs \<noteq> [] \<and> 2 ^ (8 * length bs - 1) \<le> u then u - 2 ^ (8 * length bs) else u)"

section \<open>BinaryRotator: the cursor over the byte buffer\<close>

record BinaryRotator =
  buffer :: "byte list"
  offset :: int

definition BinaryRotator_init :: "byte list \<Rightarrow> BinaryRotator" where
  "BinaryRotator_init data = \<lparr>buffer = data, offset = 0\<rparr>"

text \<open>
  \<open>read\<close> slices the buffer and advances the offset by the requested count, whatever
  the slice held. The updated cursor is returned with the bytes.
\<close>

definition read :: "BinaryRotator \<Rightarrow> int \<Rightarrow> byte list \<times> BinaryRotator" where
  "read self n =
     (py_slice (buffer self) (offset self) (offset self + n), self\<lparr>offset := offset self + n\<rparr>)"

definition read_int :: "BinaryRotator \<Rightarrow> int \<Rightarrow> bool \<Rightarrow> int \<times> BinaryRotator" where
  "read_int self n is_signed =
     (case read self n of (bs, r) \<Rightarrow> (int_from_bytes bs is_signed, r))"

definition read_u8 :: "BinaryRotator \<Rightarrow> int \<times> BinaryRotator" where
  "read_u8 self = read_int self 1 False"

definition read_u16 :: "BinaryRotator \<Rightarrow> int \<times> BinaryRotator" where
  "read_u16 self = read_int self 2 False"

definition read_i16 :: "BinaryRotator \<Rightarrow> int \<times> BinaryRotator" where
  "read_i16 self = read_int self 2 True"

definition read_u32 :: "BinaryRotator \<Rightarrow> int \<times> BinaryRotator" where
  "read_u32 self = read_int self 4 False"

definition read_i32 :: "BinaryRotator \<Rightarrow> int \<times> BinaryRotator" where
  "read_i32 self = read_int self 4 True"

definition read_u64 :: "BinaryRotator \<Rightarrow> int \<times> BinaryRotator" where
  "read_u64 self = read_int self 8 False"

definition read_i64 :: "BinaryRotator \<Rightarrow> int \<times> BinaryRotator" where
  "read_i64 self = read_int self 8 True"

text \<open>
  \<^verbatim>\<open>struct.unpack("<f", bs)\<close> wants exactly four bytes and raises \<^verbatim>\<open>struct.error\<close>
  on any other count; it returns a 1-tuple holding the binary32 number. The number
  is kept as its four bytes (decoding IEEE-754 is outside this model). Both
  \<open>read_f32\<close> and \<open>read_f64\<close> pass the format \<^verbatim>\<open>"<f"\<close>.
\<close>

datatype float_tuple = FloatTuple "byte list"

definition struct_unpack_f :: "byte list \<Rightarrow> error + float_tuple" where
  "struct_unpack_f bs = (if length bs = 4 then Inr (FloatTuple bs) else Inl StructError)"

definition read_f32 :: "BinaryRotator \<Rightarrow> error + (float_tuple \<times> BinaryRotator)" where
  "read_f32 self =
     (case read self 4 of (bs, r) \<Rightarrow>
        (case struct_unpack_f bs of Inl e \<Rightarrow> Inl e | Inr v \<Rightarrow> Inr (v, r)))"

definition read_f64 :: "BinaryRotator \<Rightarrow> error + (float_tuple \<times> BinaryRotator)" where
  "read_f64 self =
     (case read self 8 of (bs, r) \<Rightarrow>
        (case struct_unpack_f bs of Inl e \<Rightarrow> Inl e | Inr v \<Rightarrow> Inr (v, r)))"

text \<open>
  \<open>read_uleb128\<close> returns the empty string when the marker byte is not \<open>0x0b\<close>, and
  an integer otherwise: the result is a string or an integer.
\<close>

datatype str_or_int = PyStr string | PyInt int

text \<open>
  The \<^verbatim>\<open>while True\<close> loop of \<open>read_uleb128\<close>. A byte read past the end of the
  buffer is 0, whose continuation bit is clear, so the loop stops there at the
  latest.
\<close>

function uleb128_loop :: "BinaryRotator \<Rightarrow> int \<Rightarrow> nat \<Rightarrow> int \<times> BinaryRotator" where
  "uleb128_loop self val shift =
     (case read_u8 self of (b, r) \<Rightarrow>
        (let val' = val OR push_bit shift (b AND 127)
         in if b AND 128 = 0 then (val', r) else uleb128_loop r val' (shift + 7)))"
  by pat_completeness auto

lemma read_u8_continues:
  assumes "read_u8 self = (b, r)" and "b AND 128 \<noteq> 0"
  shows "offset self < int (length (buffer self))" and "offset r = offset self + 1"
    and "buffer r = buffer self"
proof -
  let ?bs = "py_slice (buffer self) (offset self) (offset self + 1)"
  from assms(1) have b: "b = le_uint ?bs" and r: "r = self\<lparr>offset := offset self + 1\<rparr>"
    by (auto simp: read_u8_def read_int_def read_def int_from_bytes_def)
  from r show "offset r = offset self + 1" and "buffer r = buffer self" by simp_all
  from assms(2) b have "?bs \<noteq> []" by auto
  then show "offset self < int (length (buffer self))"
    by (auto simp: py_slice_def slice_index_def Let_def split: if_splits)
qed

lemma read_u8_measure:
  assumes "(b, r) = read_u8 self" and "b AND 128 \<noteq> 0"
  shows "int (length (buffer r)) - offset r < int (length (buffer self)) - offset self"
    and "offset self < int (length (buffer self))"
  using read_u8_continues [of self b r] assms by simp_all

termination uleb128_loop
  by (relation "measure (\<lambda>(self, val, shift). nat (int (length (buffer self)) - offset self))")
    (auto intro: read_u8_measure)

declare uleb128_loop.simps [simp del]

definition read_uleb128 :: "BinaryRotator \<Rightarrow> str_or_int \<times> BinaryRotator" where
  "read_uleb128 self =
     (case read_u8 self of (marker, r) \<Rightarrow>
        if marker \<noteq> 11 then (PyStr [], r)
        else (case uleb128_loop r 0 0 of (val, r') \<Rightarrow> (PyInt val, r')))"

text \<open>
  \<^verbatim>\<open>bytes.decode()\<close> is strict UTF-8. A decoded \<^verbatim>\<open>str\<close> is kept as the characters of
  its UTF-8 encoding, so decoding checks the bytes and keeps them. The well-formed
  sequences are those of the Unicode standard: no overlong form, no surrogate,
  nothing above U+10FFFF.
\<close>

definition utf8_tail_len :: "byte \<Rightarrow> nat" where
  "utf8_tail_len a =
     (if 0xC2 \<le> a \<and> a \<le> 0xDF then 1
      else if 0xE0 \<le> a \<and> a \<le> 0xEF then 2
      else if 0xF0 \<le> a \<and> a \<le> 0xF4 then 3
      else 0)"

definition utf8_second_ok :: "byte \<Rightarrow> byte \<Rightarrow> bool" where
  "utf8_second_ok a b =
     ((if a = 0xE0 then 0xA0 else if a = 0xF0 then 0x90 else 0x80) \<le> b
      \<and> b \<le> (if a = 0xED then 0x9F else if a = 0xF4 then 0x8F else 0xBF))"

definition utf8_tail_ok :: "byte \<Rightarrow> byte list \<Rightarrow> bool" where
  "utf8_tail_ok a bs =
     (case bs of [] \<Rightarrow> False
      | b # cs \<Rightarrow> utf8_second_ok a b \<and> list_all (\<lambda>c. 0x80 \<le> c \<and> c \<le> 0xBF) cs)"

function valid_utf8 :: "byte list \<Rightarrow> bool" where
  "valid_utf8 [] = True"
| "valid_utf8 (a # bs) =
     (if a < 0x80 then valid_utf8 bs
      else (let n = utf8_tail_len a
            in n \<noteq> 0 \<and> n \<le> length bs \<and> utf8_tail_ok a (take n bs) \<and> valid_utf8 (drop n bs)))"
  by pat_completeness auto

termination valid_utf8
  by (relation "measure length") auto

definition char_of_byte :: "byte \<Rightarrow> char" where
  "char_of_byte b = char_of (uint b)"

definition decode_utf8 :: "byte list \<Rightarrow> error + string" where
  "decode_utf8 bs = (if valid_utf8 bs then Inr (map char_of_byte bs) else Inl UnicodeDecodeError)"

text \<open>\<^verbatim>\<open>bytes.decode("ascii")\<close>: every byte must be below 128.\<close>

definition decode_ascii :: "byte list \<Rightarrow> error + string" where
  "decode_ascii bs =
     (if list_all (\<lambda>b. b < 0x80) bs then Inr (map char_of_byte bs) else Inl UnicodeDecodeError)"

text \<open>
  \<open>read_string\<close> passes what \<open>read_uleb128\<close> returned to \<open>read\<close>, which adds it to the
  integer offset: with the empty string that addition raises \<^verbatim>\<open>TypeError\<close>.
\<close>

definition read_string :: "BinaryRotator \<Rightarrow> error + (string \<times> BinaryRotator)" where
  "read_string self =
     (case read_uleb128 self of
        (PyStr s, r) \<Rightarrow> Inl TypeError
      | (PyInt s_len, r) \<Rightarrow>
          (case read r s_len of (bs, r') \<Rightarrow>
             (case decode_utf8 bs of Inl e \<Rightarrow> Inl e | Inr s \<Rightarrow> Inr (s, r'))))"

section \<open>Strings, integers and sequencing\<close>

text \<open>Sequencing of computations that can raise: the first exception wins.\<close>

definition bind_err :: "error + 'a \<Rightarrow> ('a \<Rightarrow> error + 'b) \<Rightarrow> error + 'b" where
  "bind_err m f = (case m of Inl e \<Rightarrow> Inl e | Inr x \<Rightarrow> f x)"

text \<open>
  \<^verbatim>\<open>s.split(sep)\<close> with a one-character separator: the pieces between the
  separators, one more piece than there are separators, empty pieces included.
\<close>

fun split_on :: "char \<Rightarrow> string \<Rightarrow> string list" where
  "split_on sep [] = [[]]"
| "split_on sep (c # cs) =
     (if c = sep then [] # split_on sep cs
      else (case split_on sep cs of [] \<Rightarrow> [[c]] | piece # pieces \<Rightarrow> (c # piece) # pieces))"

text \<open>\<^verbatim>\<open>xs[i]\<close> for a non-negative constant index: \<^verbatim>\<open>IndexError\<close> past the end.\<close>

definition py_index :: "'a list \<Rightarrow> nat \<Rightarrow> error + 'a" where
  "py_index xs i = (if i < length xs then Inr (xs ! i) else Inl IndexError)"

text \<open>
  \<^verbatim>\<open>int(s)\<close> on an ASCII string: optional white space around, an optional sign,
  then decimal digits, where single underscores may stand between digits;
  \<^verbatim>\<open>ValueError\<close> otherwise. (The interpreter's limit on the number of digits is
  not modelled.)
\<close>

definition py_isspace :: "char \<Rightarrow> bool" where
  "py_isspace c = (of_char c \<in> {9, 10, 11, 12, 13, 32 :: nat})"

definition py_strip :: "string \<Rightarrow> string" where
  "py_strip s = rev (dropWhile py_isspace (rev (dropWhile py_isspace s)))"

definition is_digit :: "char \<Rightarrow> bool" where
  "is_digit c = (48 \<le> (of_char c :: nat) \<and> (of_char c :: nat) \<le> 57)"

definition digit_val :: "char \<Rightarrow> nat" where
  "digit_val c = of_char c - 48"

fun int_digits :: "string \<Rightarrow> nat \<Rightarrow> nat option" where
  "int_digits [] acc = Some acc"
| "int_digits [c] acc = (if is_digit c then Some (10 * acc + digit_val c) else None)"
| "int_digits (c # d # ds) acc =
     (if c = CHR ''_'' then
        (if is_digit d then int_digits ds (10 * acc + digit_val d) else None)
      else if is_digit c then int_digits (d # ds) (10 * acc + digit_val c)
      else None)"

definition int_literal :: "string \<Rightarrow> int option" where
  "int_literal s =
     (let t = py_strip s;
          neg = (t \<noteq> [] \<and> hd t = CHR ''-'');
          body = (if t \<noteq> [] \<and> (hd t = CHR ''-'' \<or> hd t = CHR ''+'') then tl t else t)
      in case body of
           [] \<Rightarrow> None
         | d # ds \<Rightarrow>
             if is_digit d then
               map_option (\<lambda>n. if neg then - int n else int n) (int_digits ds (digit_val d))
             else None)"

definition py_int :: "string \<Rightarrow> error + int" where
  "py_int s = (case int_literal s of None \<Rightarrow> Inl ValueError | Some n \<Rightarrow> Inr n)"

text \<open>
  What the source takes from Python's library and this model does not define: the
  LZMA decompressor and the conversion of a string to a floating-point number.
  They are parameters, and \<open>'f\<close> is the type of floating-point numbers.
  \<^verbatim>\<open>float(s)\<close> raises \<^verbatim>\<open>ValueError\<close> where \<open>float_of_str\<close> is \<open>None\<close>.
\<close>

record 'f library =
  lzma_decompress :: "byte list \<Rightarrow> error + byte list"
  float_of_str :: "string \<Rightarrow> 'f option"

definition py_float :: "'f library \<Rightarrow> string \<Rightarrow> error + 'f" where
  "py_float lib s = (case float_of_str lib s of None \<Rightarrow> Inl ValueError | Some x \<Rightarrow> Inr x)"

section \<open>Replay frames and the replay record\<close>

datatype 'f frame =
    OsuReplayFrame int 'f 'f int
  | TaikoReplayFrame int 'f int
  | CatchReplayFrame int 'f bool
  | ManiaReplayFrame int int

text \<open>
  The attributes \<^verbatim>\<open>__init__\<close> assigns. \<open>reader\<close> is \<^verbatim>\<open>__reader\<close>, and \<open>priv_frames\<close>,
  \<open>priv_score_id\<close>, \<open>priv_seed\<close>, \<open>priv_accuracy\<close>, \<open>priv_target_practice_hits\<close> are
  \<^verbatim>\<open>_frames\<close>, \<^verbatim>\<open>_score_id\<close>, \<^verbatim>\<open>_seed\<close>, \<^verbatim>\<open>_accuracy\<close>, \<^verbatim>\<open>_target_practice_hits\<close>, with
  \<open>None\<close> for Python's \<^verbatim>\<open>None\<close>. The timestamp is counted in microseconds since
  0001-01-01. Accuracy is computed in exact rational arithmetic: the rounding of
  floating-point operations is not modelled.
\<close>

record 'f ReplayFile =
  reader :: "BinaryRotator option"
  mode :: int
  osu_version :: int
  map_md5 :: string
  player_name :: string
  replay_md5 :: string
  n300 :: int
  n100 :: int
  n50 :: int
  ngeki :: int
  nkatu :: int
  nmiss :: int
  score :: int
  max_combo :: int
  perfect :: bool
  mods :: int
  life_graph :: string
  timestamp :: int
  priv_frames :: "'f frame list option"
  priv_score_id :: "int option"
  priv_seed :: "int option"
  priv_accuracy :: "rat option"
  priv_target_practice_hits :: "float_tuple option"

definition ReplayFile_init :: "'f ReplayFile \<Rightarrow> 'f ReplayFile" where
  "ReplayFile_init self =
     self\<lparr>reader := None, mode := 0, osu_version := 0, map_md5 := [], player_name := [],
          replay_md5 := [], n300 := 0, n100 := 0, n50 := 0, ngeki := 0, nkatu := 0,
          nmiss := 0, score := 0, max_combo := 0, perfect := False, mods := 0,
          life_graph := [], timestamp := 0, priv_frames := None, priv_score_id := None,
          priv_seed := None, priv_accuracy := None, priv_target_practice_hits := None\<rparr>"

text \<open>
  \<^verbatim>\<open>cls()\<close>: a new object, with the attributes \<^verbatim>\<open>__init__\<close> assigns to it.
\<close>

definition ReplayFile_new :: "'f ReplayFile" where
  "ReplayFile_new =
     \<lparr>reader = None, mode = 0, osu_version = 0, map_md5 = [], player_name = [],
      replay_md5 = [], n300 = 0, n100 = 0, n50 = 0, ngeki = 0, nkatu = 0, nmiss = 0,
      score = 0, max_combo = 0, perfect = False, mods = 0, life_graph = [],
      timestamp = 0, priv_frames = None, priv_score_id = None, priv_seed = None,
      priv_accuracy = None, priv_target_practice_hits = None\<rparr>"

text \<open>
  A method's \<^verbatim>\<open>self\<close> is an instance or, through \<open>from_bytes\<close>, the class object
  \<^verbatim>\<open>ReplayFile\<close> itself. On the class object an attribute that is a property
  evaluates to the property object, not to what its getter returns.
\<close>

datatype receiver = ClassObject | Instance

section \<open>Mods and accuracy\<close>

definition MODS :: "(string \<times> int) list" where
  "MODS =
     [(''HD'', 8), (''HR'', 16), (''DT'', 64), (''EZ'', 2), (''HT'', 256), (''NC'', 512),
      (''NF'', 1), (''SD'', 32), (''PF'', 16384), (''FL'', 1024), (''RX'', 128),
      (''AP'', 2048), (''SO'', 4096)]"

text \<open>
  \<^verbatim>\<open>functools.reduce\<close> with an initial value is a left fold; the f-string puts the
  accumulator, a space and the abbreviation together.
\<close>

definition parse_osu_mods :: "'f ReplayFile \<Rightarrow> string" where
  "parse_osu_mods self =
     foldl (\<lambda>acc val. if mods self AND snd val \<noteq> 0 then acc @ '' '' @ fst val else acc)
       [] MODS"



section \<open>The frame section\<close>

text \<open>
  \<^verbatim>\<open>[frame.split("|") for frame in data.split(",")[:-1]]\<close>: the slice \<^verbatim>\<open>[:-1]\<close> drops
  the last piece, whatever it holds.
\<close>

definition frame_tokens :: "string \<Rightarrow> string list list" where
  "frame_tokens data = map (split_on CHR ''|'') (butlast (split_on CHR '','' data))"

text \<open>
  The frame constructors of \<open>read_lzma\<close>, one per branch of its \<^verbatim>\<open>if\<close>/\<^verbatim>\<open>elif\<close>
  chain; arguments are evaluated from left to right. No branch is taken for a
  mode outside 0..3, and the local variable \<^verbatim>\<open>frame\<close> then stays unbound: the
  result \<open>None\<close>.
\<close>

definition make_frame :: "'f library \<Rightarrow> int \<Rightarrow> string list \<Rightarrow> error + 'f frame option" where
  "make_frame lib m action =
     (if m = 0 then
        bind_err (py_index action 0) (\<lambda>a0. bind_err (py_int a0) (\<lambda>delta.
        bind_err (py_index action 1) (\<lambda>a1. bind_err (py_float lib a1) (\<lambda>x.
        bind_err (py_index action 2) (\<lambda>a2. bind_err (py_float lib a2) (\<lambda>y.
        bind_err (py_index action 3) (\<lambda>a3. bind_err (py_int a3) (\<lambda>keys.
          Inr (Some (OsuReplayFrame delta x y keys))))))))))
      else if m = 1 then
        bind_err (py_index action 0) (\<lambda>a0. bind_err (py_int a0) (\<lambda>delta.
        bind_err (py_index action 1) (\<lambda>a1. bind_err (py_float lib a1) (\<lambda>x.
        bind_err (py_index action 3) (\<lambda>a3. bind_err (py_int a3) (\<lambda>keys.
          Inr (Some (TaikoReplayFrame delta x keys))))))))
      else if m = 2 then
        bind_err (py_index action 0) (\<lambda>a0. bind_err (py_int a0) (\<lambda>delta.
        bind_err (py_index action 1) (\<lambda>a1. bind_err (py_float lib a1) (\<lambda>x.
        bind_err (py_index action 3) (\<lambda>a3.
          Inr (Some (CatchReplayFrame delta x (a3 = ''1''))))))))
      else if m = 3 then
        bind_err (py_index action 0) (\<lambda>a0. bind_err (py_int a0) (\<lambda>delta.
        bind_err (py_index action 1) (\<lambda>a1. bind_err (py_int a1) (\<lambda>keys.
          Inr (Some (ManiaReplayFrame delta keys))))))
      else Inr None)"

text \<open>
  \<^verbatim>\<open>self._frames.append(frame)\<close>: the attribute is looked up first
  (\<^verbatim>\<open>AttributeError\<close> on \<^verbatim>\<open>None\<close>), then the unbound local raises.
\<close>

definition append_frame :: "'f ReplayFile \<Rightarrow> 'f frame option \<Rightarrow> error + 'f ReplayFile" where
  "append_frame self fr =
     (case priv_frames self of
        None \<Rightarrow> Inl AttributeError
      | Some fs \<Rightarrow>
          (case fr of
             None \<Rightarrow> Inl UnboundLocalError
           | Some f \<Rightarrow> Inr (self\<lparr>priv_frames := Some (fs @ [f])\<rparr>)))"

text \<open>
  The test \<^verbatim>\<open>self.osu_version >= 20130319 and action[0] == "-12345"\<close>: the index is
  evaluated only when the version passes.
\<close>

definition is_seed_token :: "'f ReplayFile \<Rightarrow> string list \<Rightarrow> error + bool" where
  "is_seed_token self action =
     (if 20130319 \<le> osu_version self
      then bind_err (py_index action 0) (\<lambda>a0. Inr (a0 = ''-12345''))
      else Inr False)"

text \<open>One iteration of the \<^verbatim>\<open>for action in frames\<close> loop of \<open>read_lzma\<close>.\<close>

definition read_lzma_step ::
  "'f library \<Rightarrow> 'f ReplayFile \<Rightarrow> string list \<Rightarrow> error + 'f ReplayFile" where
  "read_lzma_step lib self action =
     bind_err (is_seed_token self action) (\<lambda>seed_token.
       if seed_token then
         bind_err (py_index action 3) (\<lambda>a3. bind_err (py_int a3) (\<lambda>v.
           Inr (self\<lparr>priv_seed := Some v\<rparr>)))
       else bind_err (make_frame lib (mode self) action) (append_frame self))"

fun read_lzma_loop ::
  "'f library \<Rightarrow> 'f ReplayFile \<Rightarrow> string list list \<Rightarrow> error + 'f ReplayFile" where
  "read_lzma_loop lib self [] = Inr self"
| "read_lzma_loop lib self (action # rest) =
     bind_err (read_lzma_step lib self action) (\<lambda>self'. read_lzma_loop lib self' rest)"

text \<open>
  \<open>read_lzma\<close> in its three parts: reading and decompressing the block (the first
  four statements), decoding the frames (through the end of the loop), and the
  trailer. The cursor is the object in \<^verbatim>\<open>__reader\<close>; it is stored back after
  each part.
\<close>

definition read_lzma_text :: "'f library \<Rightarrow> 'f ReplayFile \<Rightarrow> error + (string \<times> 'f ReplayFile)" where
  "read_lzma_text lib self =
     (case reader self of
        None \<Rightarrow> Inl AttributeError
      | Some r \<Rightarrow>
          (case read_i32 r of (lzma_len, r1) \<Rightarrow>
           case read r1 lzma_len of (lzma_data, r2) \<Rightarrow>
             bind_err (lzma_decompress lib lzma_data) (\<lambda>raw.
             bind_err (decode_ascii raw) (\<lambda>data.
               Inr (data, self\<lparr>reader := Some r2\<rparr>)))))"

definition read_lzma_frames :: "'f library \<Rightarrow> 'f ReplayFile \<Rightarrow> string \<Rightarrow> error + 'f ReplayFile" where
  "read_lzma_frames lib self data =
     read_lzma_loop lib (self\<lparr>priv_frames := Some []\<rparr>) (frame_tokens data)"

definition read_score_id :: "'f ReplayFile \<Rightarrow> error + 'f ReplayFile" where
  "read_score_id self =
     (if 20140721 \<le> osu_version self then
        (case reader self of
           None \<Rightarrow> Inl AttributeError
         | Some r \<Rightarrow>
             (case read_i64 r of (v, r') \<Rightarrow>
                Inr (self\<lparr>reader := Some r', priv_score_id := Some v\<rparr>)))
      else if 20121008 \<le> osu_version self then
        (case reader self of
           None \<Rightarrow> Inl AttributeError
         | Some r \<Rightarrow>
             (case read_i32 r of (v, r') \<Rightarrow>
                Inr (self\<lparr>reader := Some r', priv_score_id := Some v\<rparr>)))
      else Inr self)"

definition read_target_practice :: "'f ReplayFile \<Rightarrow> error + 'f ReplayFile" where
  "read_target_practice self =
     (if mods self AND 8388608 \<noteq> 0 then
        (case reader self of
           None \<Rightarrow> Inl AttributeError
         | Some r \<Rightarrow>
             bind_err (read_f64 r) (\<lambda>(v, r').
               Inr (self\<lparr>reader := Some r', priv_target_practice_hits := Some v\<rparr>)))
      else Inr self)"

definition read_lzma_trailer :: "'f ReplayFile \<Rightarrow> error + 'f ReplayFile" where
  "read_lzma_trailer self = bind_err (read_score_id self) read_target_practice"

definition read_lzma :: "'f library \<Rightarrow> 'f ReplayFile \<Rightarrow> error + 'f ReplayFile" where
  "read_lzma lib self =
     bind_err (read_lzma_text lib self) (\<lambda>(data, self1).
     bind_err (read_lzma_frames lib self1 data) read_lzma_trailer)"

text \<open>
  The properties \<open>frames\<close>, \<open>score_id\<close>, \<open>target_practice_hits\<close> and \<open>seed\<close>, read on
  an instance: each calls \<open>read_lzma\<close> when its own attribute is \<^verbatim>\<open>None\<close>, and returns
  the attribute.
\<close>

definition frames :: "'f library \<Rightarrow> 'f ReplayFile \<Rightarrow> error + ('f frame list option \<times> 'f ReplayFile)" where
  "frames lib self =
     (if priv_frames self = None
      then bind_err (read_lzma lib self) (\<lambda>self'. Inr (priv_frames self', self'))
      else Inr (priv_frames self, self))"

definition score_id :: "'f library \<Rightarrow> 'f ReplayFile \<Rightarrow> error + (int option \<times> 'f ReplayFile)" where
  "score_id lib self =
     (if priv_score_id self = None
      then bind_err (read_lzma lib self) (\<lambda>self'. Inr (priv_score_id self', self'))
      else Inr (priv_score_id self, self))"

definition target_practice_hits ::
  "'f library \<Rightarrow> 'f ReplayFile \<Rightarrow> error + (float_tuple option \<times> 'f ReplayFile)" where
  "target_practice_hits lib self =
     (if priv_target_practice_hits self = None
      then bind_err (read_lzma lib self) (\<lambda>self'. Inr (priv_target_practice_hits self', self'))
      else Inr (priv_target_practice_hits self, self))"

definition seed :: "'f library \<Rightarrow> 'f ReplayFile \<Rightarrow> error + (int option \<times> 'f ReplayFile)" where
  "seed lib self =
     (if priv_seed self = None
      then bind_err (read_lzma lib self) (\<lambda>self'. Inr (priv_seed self', self'))
      else Inr (priv_seed self, self))"

section \<open>The entry points\<close>

text \<open>
  One iteration of the loop of \<open>parse_lzma\<close>. \<^verbatim>\<open>self.seed = ...\<close> on an instance
  raises \<^verbatim>\<open>AttributeError\<close> (the property has no setter); on the class object it
  rebinds the class attribute \<^verbatim>\<open>seed\<close>, which nothing in this model reads back.
  \<^verbatim>\<open>self.frames.append(frame)\<close> on an instance runs the getter and appends to the
  list it returns, which is the list in \<^verbatim>\<open>_frames\<close>; on the class object
  \<^verbatim>\<open>self.frames\<close> is the property object, which has no \<^verbatim>\<open>append\<close>.
\<close>

definition parse_lzma_step ::
  "'f library \<Rightarrow> receiver \<Rightarrow> 'f ReplayFile \<Rightarrow> string list \<Rightarrow> error + 'f ReplayFile" where
  "parse_lzma_step lib recv self action =
     bind_err (is_seed_token self action) (\<lambda>seed_token.
       if seed_token then
         bind_err (py_index action 3) (\<lambda>a3. bind_err (py_int a3) (\<lambda>v.
           case recv of Instance \<Rightarrow> Inl AttributeError | ClassObject \<Rightarrow> Inr self))
       else
         bind_err (make_frame lib 0 action) (\<lambda>frame.
           case recv of
             ClassObject \<Rightarrow> Inl AttributeError
           | Instance \<Rightarrow> bind_err (frames lib self) (\<lambda>(fs, self'). append_frame self' frame)))"

fun parse_lzma_loop ::
  "'f library \<Rightarrow> receiver \<Rightarrow> 'f ReplayFile \<Rightarrow> string list list \<Rightarrow> error + 'f ReplayFile" where
  "parse_lzma_loop lib recv self [] = Inr self"
| "parse_lzma_loop lib recv self (action # rest) =
     bind_err (parse_lzma_step lib recv self action)
       (\<lambda>self'. parse_lzma_loop lib recv self' rest)"

definition parse_lzma :: "'f library \<Rightarrow> receiver \<Rightarrow> 'f ReplayFile \<Rightarrow> error + 'f ReplayFile" where
  "parse_lzma lib recv self =
     (case reader self of
        None \<Rightarrow> Inl AttributeError
      | Some r \<Rightarrow>
          bind_err (lzma_decompress lib (buffer r)) (\<lambda>raw.
          bind_err (decode_ascii raw) (\<lambda>data.
            parse_lzma_loop lib recv self (frame_tokens data))))"

text \<open>
  \<^verbatim>\<open>datetime.datetime(1, 1, 1) + datetime.timedelta(microseconds=ticks // 10)\<close>: the
  sum must lie between 0001-01-01 and the last microsecond of 9999-12-31, that is
  3652059 days; \<^verbatim>\<open>OverflowError\<close> otherwise.
\<close>

definition parse_timestamp :: "int \<Rightarrow> error + int" where
  "parse_timestamp ticks =
     (let us = ticks div 10
      in if 0 \<le> us \<and> us < 3652059 * 86400000000 then Inr us else Inl OverflowError)"

text \<open>
  \<open>parse_data\<close>. With \<open>only_lzma\<close> it calls \<^verbatim>\<open>self.parse_lzma(self)\<close>: on an instance
  the bound method receives two arguments for its one parameter
  (\<^verbatim>\<open>TypeError\<close>); on the class object the plain function receives the class as
  \<^verbatim>\<open>self\<close>. It returns \<^verbatim>\<open>self\<close>: here, the attributes of \<^verbatim>\<open>self\<close> afterwards.
\<close>

definition parse_data ::
  "'f library \<Rightarrow> receiver \<Rightarrow> 'f ReplayFile \<Rightarrow> bool \<Rightarrow> error + 'f ReplayFile" where
  "parse_data lib recv self only_lzma =
     (if only_lzma then
        (case recv of
           Instance \<Rightarrow> Inl TypeError
         | ClassObject \<Rightarrow> parse_lzma lib ClassObject self)
      else
        (case reader self of
           None \<Rightarrow> Inl AttributeError
         | Some r0 \<Rightarrow>
            (case read_u8 r0 of (v_mode, r1) \<Rightarrow>
             case read_i32 r1 of (v_osu_version, r2) \<Rightarrow>
             bind_err (read_string r2) (\<lambda>(v_map_md5, r3).
             bind_err (read_string r3) (\<lambda>(v_player_name, r4).
             bind_err (read_string r4) (\<lambda>(v_replay_md5, r5).
             case read_u16 r5 of (v_n300, r6) \<Rightarrow>
             case read_u16 r6 of (v_n100, r7) \<Rightarrow>
             case read_u16 r7 of (v_n50, r8) \<Rightarrow>
             case read_u16 r8 of (v_ngeki, r9) \<Rightarrow>
             case read_u16 r9 of (v_nkatu, r10) \<Rightarrow>
             case read_u16 r10 of (v_nmiss, r11) \<Rightarrow>
             case read_i32 r11 of (v_score, r12) \<Rightarrow>
             case read_u16 r12 of (v_max_combo, r13) \<Rightarrow>
             case read_u8 r13 of (v_perfect, r14) \<Rightarrow>
             case read_i32 r14 of (v_mods, r15) \<Rightarrow>
             bind_err (read_string r15) (\<lambda>(v_life_graph, r16).
             case read_i64 r16 of (ticks, r17) \<Rightarrow>
             bind_err (parse_timestamp ticks) (\<lambda>v_timestamp.
               Inr (self\<lparr>reader := Some r17, mode := v_mode, osu_version := v_osu_version,
                         map_md5 := v_map_md5, player_name := v_player_name,
                         replay_md5 := v_replay_md5, n300 := v_n300, n100 := v_n100,
                         n50 := v_n50, ngeki := v_ngeki, nkatu := v_nkatu, nmiss := v_nmiss,
                         score := v_score, max_combo := v_max_combo,
                         perfect := (v_perfect = 1), mods := v_mods,
                         life_graph := v_life_graph, timestamp := v_timestamp\<rparr>)))))))))"

text \<open>
  \<open>from_bytes\<close> works on the class object: \<^verbatim>\<open>cls.__init__(cls)\<close> assigns the class's
  attributes, the cursor is stored in the class, and \<open>parse_data\<close> runs with the
  class as \<^verbatim>\<open>self\<close> and returns it. The function takes the attributes of the class
  object before the call and returns the object that the call returns, with the
  class's attributes afterwards. \<open>from_file\<close> makes a new instance; its argument is
  the content of the file.
\<close>

definition from_bytes ::
  "'f library \<Rightarrow> 'f ReplayFile \<Rightarrow> byte list \<Rightarrow> bool \<Rightarrow> error + (receiver \<times> 'f ReplayFile)" where
  "from_bytes lib cls bytedata pure_lzma =
     (let cls1 = ReplayFile_init cls;
          cls2 = cls1\<lparr>reader := Some (BinaryRotator_init bytedata)\<rparr>
      in bind_err (parse_data lib ClassObject cls2 pure_lzma) (\<lambda>cls'. Inr (ClassObject, cls')))"

definition from_file ::
  "'f library \<Rightarrow> byte list \<Rightarrow> bool \<Rightarrow> error + (receiver \<times> 'f ReplayFile)" where
  "from_file lib content pure_lzma =
     (let new_instance = ReplayFile_new\<lparr>reader := Some (BinaryRotator_init content)\<rparr>
      in bind_err (parse_data lib Instance new_instance pure_lzma) (\<lambda>self. Inr (Instance, self)))"

section \<open>The specification's functions and a library for examples\<close>

text \<open>
  \<open>decodeMods\<close> as the specification words it: the list of the abbreviations whose
  bit is set, in the order of the table, bits outside the table ignored.
\<close>

definition decodeMods :: "int \<Rightarrow> string list" where
  "decodeMods bitmask = map fst (filter (\<lambda>entry. bitmask AND snd entry \<noteq> 0) MODS)"

text \<open>
  The frame of one token as the specification words it: the token's four fields
  are delta, field1, field2 and field3, and the mode selects the variant. The
  result is \<open>None\<close> when a numeric field does not parse.
\<close>

definition spec_frame :: "'f library \<Rightarrow> int \<Rightarrow> string list \<Rightarrow> 'f frame option" where
  "spec_frame lib m token =
     (let delta = int_literal (token ! 0); field1 = token ! 1; field2 = token ! 2;
          field3 = token ! 3
      in if m = 0 then
           (case (delta, float_of_str lib field1, float_of_str lib field2, int_literal field3) of
              (Some d, Some x, Some y, Some k) \<Rightarrow> Some (OsuReplayFrame d x y k)
            | _ \<Rightarrow> None)
         else if m = 1 then
           (case (delta, float_of_str lib field1, int_literal field3) of
              (Some d, Some x, Some k) \<Rightarrow> Some (TaikoReplayFrame d x k)
            | _ \<Rightarrow> None)
         else if m = 2 then
           (case (delta, float_of_str lib field1) of
              (Some d, Some x) \<Rightarrow> Some (CatchReplayFrame d x (field3 = ''1''))
            | _ \<Rightarrow> None)
         else
           (case (delta, int_literal field1) of
              (Some d, Some k) \<Rightarrow> Some (ManiaReplayFrame d k)
            | _ \<Rightarrow> None))"

text \<open>
  A library to run the examples with: a block is stored as it is (and, as with the
  real decompressor, the empty block is an error), and \<^verbatim>\<open>float\<close> is defined on the
  three literals the examples use. Floating-point numbers are rationals here.
\<close>

definition example_library :: "rat library" where
  "example_library =
     \<lparr>lzma_decompress = (\<lambda>bs. if bs = [] then Inl LZMAError else Inr bs),
      float_of_str = (\<lambda>s. if s = ''0.0'' then Some 0 else if s = ''1.0'' then Some 1
                           else if s = ''2.0'' then Some 2 else None)\<rparr>"

text \<open>
  Inputs for the examples. The twelve characters \<^verbatim>\<open>0|1.0|2.0|0,\<close> as bytes, and a
  frame section made of them: the length 12 in four bytes, then the block.
\<close>

definition example_text_bytes :: "byte list" where
  "example_text_bytes = [0x30, 0x7c, 0x31, 0x2e, 0x30, 0x7c, 0x32, 0x2e, 0x30, 0x7c, 0x30, 0x2c]"

definition example_block :: "byte list" where
  "example_block = [12, 0, 0, 0] @ example_text_bytes"

text \<open>
  A header up to and including the life-graph string, 38 bytes: the mode byte
  \<open>m\<close>, version 0, an empty map hash, the player name \<^verbatim>\<open>AB\<close>, an empty replay hash,
  300 for n300 and 0 for the other counts, score 0, max combo 0, the perfect flag,
  mods 0 and an empty life graph. A timestamp of 10 ticks to follow it.
\<close>

definition example_header :: "byte \<Rightarrow> byte list" where
  "example_header m =
     [m, 0, 0, 0, 0] @ [0x0b, 0] @ [0x0b, 2, 0x41, 0x42] @ [0x0b, 0]
     @ [0x2c, 1, 0, 0, 0, 0, 0, 0, 0, 0, 0, 0] @ [0, 0, 0, 0] @ [0, 0] @ [1]
     @ [0, 0, 0, 0] @ [0x0b, 0]"

definition example_timestamp :: "byte list" where
  "example_timestamp = [10, 0, 0, 0, 0, 0, 0, 0]"

section \<open>Properties of the cursor\<close>

lemma read_u8_fresh:
  "read_u8 (BinaryRotator_init data) =
     ((case data of [] \<Rightarrow> 0 | b # bs \<Rightarrow> uint b), \<lparr>buffer = data, offset = 1\<rparr>)"
  by (cases data)
    (simp_all add: read_u8_def read_int_def read_def BinaryRotator_init_def py_slice_def
      slice_index_def int_from_bytes_def)

text \<open>
  C1, as the code has it. \<open>read_uleb128\<close> on a buffer whose first byte is not the
  marker \<open>0x0b\<close> (or that has no first byte) does not fail: it consumes that one
  byte and returns the empty string.
\<close>

theorem C1_missing_marker_returns_empty_string:
  assumes "data = [] \<or> hd data \<noteq> 0x0b"
  shows "read_uleb128 (BinaryRotator_init data) = (PyStr [], \<lparr>buffer = data, offset = 1\<rparr>)"
proof (cases data)
  case Nil
  then show ?thesis by (simp add: read_uleb128_def read_u8_fresh)
next
  case (Cons b bs)
  with assms have "b \<noteq> 0x0b" by simp
  then have "uint b \<noteq> 11"
    by (metis uint_numeral word_uint_eq_iff uint_bintrunc word_of_int_numeral word_of_int_uint)
  with Cons show ?thesis by (simp add: read_uleb128_def read_u8_fresh)
qed

theorem C1_missing_marker_witness:
  "read_uleb128 (BinaryRotator_init [0x0a, 1, 2]) =
     (PyStr [], \<lparr>buffer = [0x0a, 1, 2], offset = 1\<rparr>)"
  using C1_missing_marker_returns_empty_string [of "[0x0a, 1, 2]"] by simp

text \<open>
  C1 as the specification states it fails: on the two bytes \<open>00 05\<close> the read
  returns the empty string, it raises nothing.
\<close>

theorem C1_counterexample:
  "read_uleb128 (BinaryRotator_init [0, 5]) = (PyStr [], \<lparr>buffer = [0, 5], offset = 1\<rparr>)"
  by code_simp

section \<open>Properties of the mods and the accuracy\<close>

lemma foldl_mods:
  "foldl (\<lambda>acc val. if P val then acc @ '' '' @ fst val else acc) acc xs =
     acc @ concat (map (\<lambda>name. '' '' @ name) (map fst (filter P xs)))"
  by (induction xs arbitrary: acc) simp_all

text \<open>
  C3, as the code has it. \<open>parse_osu_mods\<close> returns one string: the abbreviations of
  the specification's list, in its order, each with a space before it.
\<close>

theorem C3_mods_string:
  "parse_osu_mods self = concat (map (\<lambda>name. '' '' @ name) (decodeMods (mods self)))"
  unfolding parse_osu_mods_def decodeMods_def by (simp only: foldl_mods append_Nil)

text \<open>
  C3 as the specification states it fails: for the mods \<open>8 + 16\<close> the result is the
  string of six characters \<^verbatim>\<open>" HD HR"\<close>, not the list of \<^verbatim>\<open>"HD"\<close> and \<^verbatim>\<open>"HR"\<close>.
\<close>

theorem C3_counterexample:
  "parse_osu_mods (ReplayFile_new\<lparr>mods := 8 + 16\<rparr>) = '' HD HR''"
  by code_simp



section \<open>Properties of the frame section\<close>

lemma bind_err_simps:
  "bind_err (Inl e) f = Inl e" "bind_err (Inr x) f = f x"
  by (simp_all add: bind_err_def)

lemmas int_literal_eval = int_literal_def py_strip_def py_isspace_def is_digit_def digit_val_def

text \<open>
  On a token of at least four fields and a mode in 0..3, the constructor of the
  code builds the frame the specification describes, and raises \<^verbatim>\<open>ValueError\<close>
  when a numeric field does not parse.
\<close>

lemma make_frame_spec:
  assumes "m \<in> {0, 1, 2, 3}" and "4 \<le> length a"
  shows "make_frame lib m a =
     (case spec_frame lib m a of Some f \<Rightarrow> Inr (Some f) | None \<Rightarrow> Inl ValueError)"
proof -
  from assms(2) have i: "py_index a 0 = Inr (a ! 0)" "py_index a 1 = Inr (a ! 1)"
    "py_index a 2 = Inr (a ! 2)" "py_index a 3 = Inr (a ! 3)"
    by (auto simp: py_index_def)
  from assms(1) consider "m = 0" | "m = 1" | "m = 2" | "m = 3" by auto
  then show ?thesis
  proof cases
    case 1
    then show ?thesis
      by (simp add: make_frame_def spec_frame_def i bind_err_simps py_int_def py_float_def
          Let_def del: One_nat_def split: option.splits)
  next
    case 2
    then show ?thesis
      by (simp add: make_frame_def spec_frame_def i bind_err_simps py_int_def py_float_def
          Let_def del: One_nat_def split: option.splits)
  next
    case 3
    then show ?thesis
      by (simp add: make_frame_def spec_frame_def i bind_err_simps py_int_def py_float_def
          Let_def del: One_nat_def split: option.splits)
  next
    case 4
    then show ?thesis
      by (simp add: make_frame_def spec_frame_def i bind_err_simps py_int_def py_float_def
          Let_def del: One_nat_def split: option.splits)
  qed
qed

lemma read_lzma_step_frame:
  assumes "a \<noteq> []" and "osu_version self < 20130319 \<or> a ! 0 \<noteq> ''-12345''"
  shows "read_lzma_step lib self a = bind_err (make_frame lib (mode self) a) (append_frame self)"
  using assms by (auto simp: read_lzma_step_def is_seed_token_def bind_err_def py_index_def)

text \<open>
  The loop appends one frame per token to the frames it starts with; the
  accumulated frames are generalised for the induction.
\<close>

lemma read_lzma_loop_frames:
  assumes "m \<in> {0, 1, 2, 3}" and "list_all (\<lambda>a. 4 \<le> length a) toks"
    and "v < 20130319 \<or> list_all (\<lambda>a. a ! 0 \<noteq> ''-12345'') toks"
    and "mode self = m" and "osu_version self = v" and "priv_frames self = Some acc"
  shows "read_lzma_loop lib self toks =
     (case those (map (spec_frame lib m) toks) of
        Some fs \<Rightarrow> Inr (self\<lparr>priv_frames := Some (acc @ fs)\<rparr>)
      | None \<Rightarrow> Inl ValueError)"
  using assms
proof (induction toks arbitrary: self acc)
  case Nil
  then show ?case by simp
next
  case (Cons a toks)
  from Cons.prems have a: "4 \<le> length a" "a \<noteq> []"
    and ns: "osu_version self < 20130319 \<or> a ! 0 \<noteq> ''-12345''"
    by auto
  have mf: "make_frame lib (mode self) a =
      (case spec_frame lib m a of Some f \<Rightarrow> Inr (Some f) | None \<Rightarrow> Inl ValueError)"
    using make_frame_spec [OF Cons.prems(1) a(1)] Cons.prems(4) by simp
  show ?case
  proof (cases "spec_frame lib m a")
    case None
    with mf show ?thesis
      by (simp add: read_lzma_step_frame [OF a(2) ns] bind_err_simps)
  next
    case (Some f)
    let ?self' = "self\<lparr>priv_frames := Some (acc @ [f])\<rparr>"
    from Some mf Cons.prems(6)
    have step: "read_lzma_step lib self a = Inr ?self'"
      by (simp add: read_lzma_step_frame [OF a(2) ns] bind_err_simps append_frame_def)
    have "read_lzma_loop lib ?self' toks =
       (case those (map (spec_frame lib m) toks) of
          Some fs \<Rightarrow> Inr (?self'\<lparr>priv_frames := Some ((acc @ [f]) @ fs)\<rparr>)
        | None \<Rightarrow> Inl ValueError)"
      using Cons.prems by (intro Cons.IH) auto
    with step Some show ?thesis
      by (simp add: bind_err_simps split: option.splits)
  qed
qed

lemma example_tokens:
  "frame_tokens ''0|1.0|2.0|0,-1|0.0|0.0|0,'' =
     [[''0'', ''1.0'', ''2.0'', ''0''], [''-1'', ''0.0'', ''0.0'', ''0'']]"
  by (simp add: frame_tokens_def)

lemma example_spec_frames:
  "those (map (spec_frame example_library 0)
      [[''0'', ''1.0'', ''2.0'', ''0''], [''-1'', ''0.0'', ''0.0'', ''0'']]) =
      Some [OsuReplayFrame 0 1 2 0, OsuReplayFrame (- 1) 0 0 0]"
  by (simp add: spec_frame_def example_library_def int_literal_eval)

text \<open>
  C5, as the code has it. The text is split on \<open>,\<close> and its last piece is dropped,
  whatever it holds; every other piece is split on \<open>|\<close>. When the mode is one of
  0..3, every token has its four fields and none is a seed token (the version is
  below 20130319, or no token starts with \<open>-12345\<close>), decoding the frames gives
  exactly the specification's frame of each token, in order, and raises
  \<^verbatim>\<open>ValueError\<close> when a numeric field of some token does not parse.
\<close>

theorem C5_frames_of_text:
  assumes "mode self \<in> {0, 1, 2, 3}"
    and "list_all (\<lambda>a. 4 \<le> length a) (frame_tokens data)"
    and "osu_version self < 20130319 \<or> list_all (\<lambda>a. a ! 0 \<noteq> ''-12345'') (frame_tokens data)"
  shows "frame_tokens data = map (split_on CHR ''|'') (butlast (split_on CHR '','' data))
    \<and> read_lzma_frames lib self data =
       (case those (map (spec_frame lib (mode self)) (frame_tokens data)) of
          Some fs \<Rightarrow> Inr (self\<lparr>priv_frames := Some fs\<rparr>)
        | None \<Rightarrow> Inl ValueError)"
proof -
  have "read_lzma_loop lib (self\<lparr>priv_frames := Some []\<rparr>) (frame_tokens data) =
     (case those (map (spec_frame lib (mode self)) (frame_tokens data)) of
        Some fs \<Rightarrow> Inr (self\<lparr>priv_frames := Some []\<rparr>\<lparr>priv_frames := Some ([] @ fs)\<rparr>)
      | None \<Rightarrow> Inl ValueError)"
    using assms by (intro read_lzma_loop_frames [where v = "osu_version self"]) auto
  then have "read_lzma_frames lib self data =
       (case those (map (spec_frame lib (mode self)) (frame_tokens data)) of
          Some fs \<Rightarrow> Inr (self\<lparr>priv_frames := Some fs\<rparr>)
        | None \<Rightarrow> Inl ValueError)"
    by (simp add: read_lzma_frames_def split: option.splits)
  then show ?thesis
    by (simp add: frame_tokens_def)
qed

text \<open>
  The example of C5: in Standard mode the stream of two tokens and a trailing
  comma decodes to exactly the two frames \<open>(0, 1.0, 2.0, 0)\<close> and
  \<open>(-1, 0.0, 0.0, 0)\<close>.
\<close>

theorem C5_frames_witness:
  "read_lzma_frames example_library ReplayFile_new ''0|1.0|2.0|0,-1|0.0|0.0|0,'' =
     Inr (ReplayFile_new\<lparr>priv_frames :=
       Some [OsuReplayFrame 0 1 2 0, OsuReplayFrame (- 1) 0 0 0]\<rparr>)"
proof -
  have m: "mode (ReplayFile_new :: rat ReplayFile) = 0"
    and v: "osu_version (ReplayFile_new :: rat ReplayFile) = 0"
    by (simp_all add: ReplayFile_new_def)
  show ?thesis
    using C5_frames_of_text [of ReplayFile_new "''0|1.0|2.0|0,-1|0.0|0.0|0,''" example_library]
    unfolding example_tokens m v example_spec_frames by simp
qed

text \<open>
  C5 as the specification states it fails on a text with no trailing comma: the
  last piece is then a token, not the empty piece, and it is dropped all the same.
  The text of one token decodes to no frame.
\<close>

theorem C5_counterexample:
  "read_lzma_frames example_library ReplayFile_new ''0|1.0|2.0|0'' =
     Inr (ReplayFile_new\<lparr>priv_frames := Some []\<rparr>)"
  by (simp add: read_lzma_frames_def frame_tokens_def)

text \<open>
  C6. When the version is at least 20130319, a token whose first field is the
  literal \<open>-12345\<close> and whose fourth field parses as the integer \<open>v\<close> adds no frame:
  the loop goes on with the remaining tokens from the same record with the seed
  set to \<open>v\<close>, whatever the seed was before.
\<close>

theorem C6_seed_sentinel:
  assumes "20130319 \<le> osu_version self"
    and "split_on CHR ''|'' token = action" and "action ! 0 = ''-12345''"
    and "3 < length action" and "int_literal (action ! 3) = Some v"
  shows "read_lzma_loop lib self (action # rest) =
     read_lzma_loop lib (self\<lparr>priv_seed := Some v\<rparr>) rest"
  using assms
  by (auto simp: read_lzma_step_def is_seed_token_def bind_err_def py_index_def py_int_def)

lemma example_seed_token:
  "split_on CHR ''|'' ''-12345|0|0|777'' = [''-12345'', ''0'', ''0'', ''777'']"
  by simp

lemma example_seed_value: "int_literal ''777'' = Some 777"
  by (simp add: int_literal_eval)

text \<open>
  The example of C6: the token \<^verbatim>\<open>-12345|0|0|777\<close> sets the seed to 777, over the seed
  5 that was there, and the frames stay empty.
\<close>

theorem C6_seed_sentinel_witness:
  "read_lzma_loop example_library
     (ReplayFile_new\<lparr>osu_version := 20130319, priv_frames := Some [], priv_seed := Some 5\<rparr>)
     [split_on CHR ''|'' ''-12345|0|0|777''] =
   Inr (ReplayFile_new\<lparr>osu_version := 20130319, priv_frames := Some [], priv_seed := Some 777\<rparr>)"
  using C6_seed_sentinel [of
      "ReplayFile_new\<lparr>osu_version := 20130319, priv_frames := Some [], priv_seed := Some 5\<rparr>"
      "''-12345|0|0|777''" "[''-12345'', ''0'', ''0'', ''777'']" 777 example_library "[]"]
  unfolding example_seed_token using example_seed_value by simp

section \<open>Properties of the trailer\<close>

lemma py_slice_inside:
  assumes "0 \<le> a" and "0 \<le> n" and "a + n \<le> int (length xs)"
  shows "py_slice xs a (a + n) = take (nat n) (drop (nat a) xs)"
    and "length (py_slice xs a (a + n)) = nat n"
proof -
  from assms have lo: "slice_index (length xs) a = nat a"
    and hi: "slice_index (length xs) (a + n) = nat (a + n)"
    by (auto simp: slice_index_def)
  from assms have d: "nat (a + n) - nat a = nat n" by linarith
  show "py_slice xs a (a + n) = take (nat n) (drop (nat a) xs)"
    by (simp add: py_slice_def lo hi d)
  from assms have "nat n \<le> length xs - nat a" by linarith
  then show "length (py_slice xs a (a + n)) = nat n"
    by (simp add: py_slice_def lo hi d)
qed

lemma read_f64_struct_error:
  assumes "0 \<le> offset r" and "offset r + 8 \<le> int (length (buffer r))"
  shows "read_f64 r = Inl StructError"
  using py_slice_inside(2) [of "offset r" 8 "buffer r"] assms
  by (simp add: read_f64_def read_def struct_unpack_f_def)

lemma read_int_offset:
  "snd (read_int r n sg) = r\<lparr>offset := offset r + n\<rparr>"
  by (simp add: read_int_def read_def)

text \<open>
  C7, where the code departs from it. \<open>read_f64\<close> unpacks its eight bytes with the
  format of a four-byte number, which \<^verbatim>\<open>struct.unpack\<close> refuses: when the
  target-practice bit is set and the buffer holds the score id (eight, four or
  no bytes, by the version) and eight more bytes, reading the trailer raises
  \<^verbatim>\<open>struct.error\<close> instead of reading the hit count.
\<close>

theorem C7_target_practice_read_fails:
  assumes "mods self AND 8388608 \<noteq> 0" and "reader self = Some r" and "0 \<le> offset r"
    and "offset r + (if 20140721 \<le> osu_version self then 8
                     else if 20121008 \<le> osu_version self then 4 else 0) + 8
         \<le> int (length (buffer r))"
  shows "read_lzma_trailer self = Inl StructError"
proof -
  let ?k = "if 20140721 \<le> osu_version self then 8
            else if 20121008 \<le> osu_version self then 4 else (0::int)"
  let ?r' = "r\<lparr>offset := offset r + ?k\<rparr>"
  have f: "read_f64 ?r' = Inl StructError"
    using assms(3,4) by (intro read_f64_struct_error) (auto split: if_splits)
  have "\<exists>self'. read_score_id self = Inr self' \<and> reader self' = Some ?r'
      \<and> mods self' = mods self"
    using assms(2) read_int_offset [of r 8 True] read_int_offset [of r 4 True]
    by (cases "read_int r 8 True"; cases "read_int r 4 True")
      (auto simp: read_score_id_def read_i64_def read_i32_def)
  then obtain self' where s: "read_score_id self = Inr self'" "reader self' = Some ?r'"
    "mods self' = mods self" by blast
  with f assms(1) show ?thesis
    by (simp add: read_lzma_trailer_def read_target_practice_def bind_err_simps)
qed

text \<open>
  A trailer of sixteen bytes, version 20140721, target-practice bit set: the score
  id 1 and the eight bytes of the number 1.0.
\<close>

theorem C7_target_practice_witness:
  "read_lzma_trailer
     ((ReplayFile_new :: 'f ReplayFile)\<lparr>osu_version := 20140721, mods := 8388608,
        reader := Some \<lparr>buffer = [1, 0, 0, 0, 0, 0, 0, 0, 0, 0, 0, 0, 0, 0, 0xf0, 0x3f], offset = 0\<rparr>\<rparr>)
   = Inl StructError"
  using C7_target_practice_read_fails [of
      "(ReplayFile_new :: 'f ReplayFile)\<lparr>osu_version := 20140721, mods := 8388608,
        reader := Some \<lparr>buffer = [1, 0, 0, 0, 0, 0, 0, 0, 0, 0, 0, 0, 0, 0, 0xf0, 0x3f], offset = 0\<rparr>\<rparr>"
      "\<lparr>buffer = [1, 0, 0, 0, 0, 0, 0, 0, 0, 0, 0, 0, 0, 0, 0xf0, 0x3f], offset = 0\<rparr>"]
  by simp

text \<open>
  The part of C7 that the code does have: without the target-practice bit the
  trailer is the score id alone, eight bytes from version 20140721, four bytes
  from version 20121008, absent below.
\<close>

lemma read_lzma_trailer_no_target_practice:
  assumes "mods self AND 8388608 = 0" and "reader self = Some r"
  shows "read_lzma_trailer self =
     (if 20140721 \<le> osu_version self then
        Inr (self\<lparr>reader := Some (snd (read_i64 r)), priv_score_id := Some (fst (read_i64 r))\<rparr>)
      else if 20121008 \<le> osu_version self then
        Inr (self\<lparr>reader := Some (snd (read_i32 r)), priv_score_id := Some (fst (read_i32 r))\<rparr>)
      else Inr self)"
  using assms
  by (simp add: read_lzma_trailer_def read_score_id_def read_target_practice_def bind_err_simps
      split: prod.splits)

section \<open>Properties of the lazily decoded fields\<close>

lemma py_slice_past_end:
  assumes "int (length xs) \<le> a"
  shows "py_slice xs a b = []"
proof -
  from assms have "slice_index (length xs) a = length xs"
    by (auto simp: slice_index_def)
  moreover have "slice_index (length xs) b \<le> length xs"
    by (auto simp: slice_index_def)
  ultimately show ?thesis by (simp add: py_slice_def)
qed

lemma py_slice_empty_range: "py_slice xs a a = []"
  by (simp add: py_slice_def)

lemma read_lzma_step_effect:
  assumes "read_lzma_step lib s a = Inr s'"
  shows "(\<exists>v. s' = s\<lparr>priv_seed := Some v\<rparr>) \<or> (\<exists>fs. s' = s\<lparr>priv_frames := Some fs\<rparr>)"
  using assms
  by (auto simp: read_lzma_step_def is_seed_token_def bind_err_def append_frame_def
      split: sum.splits option.splits if_splits)

lemma read_lzma_loop_keeps:
  assumes "read_lzma_loop lib s toks = Inr s'"
  shows "osu_version s' = osu_version s \<and> priv_score_id s' = priv_score_id s
    \<and> reader s' = reader s \<and> mods s' = mods s"
  using assms
proof (induction toks arbitrary: s)
  case Nil
  then show ?case by simp
next
  case (Cons a toks)
  then obtain s1 where s1: "read_lzma_step lib s a = Inr s1"
    and rest: "read_lzma_loop lib s1 toks = Inr s'"
    by (auto simp: bind_err_def split: sum.splits)
  from read_lzma_step_effect [OF s1] Cons.IH [OF rest] show ?case by auto
qed

lemma read_lzma_keeps_score_id:
  assumes "read_lzma lib s = Inr s'" and "osu_version s < 20121008"
  shows "priv_score_id s' = priv_score_id s"
proof -
  from assms(1) obtain data s1 s2 where
    t: "read_lzma_text lib s = Inr (data, s1)"
    and f: "read_lzma_frames lib s1 data = Inr s2"
    and tr: "read_lzma_trailer s2 = Inr s'"
    by (auto simp: read_lzma_def bind_err_def split: sum.splits)
  from t have s1: "osu_version s1 = osu_version s" "priv_score_id s1 = priv_score_id s"
    by (auto simp: read_lzma_text_def bind_err_def split: option.splits sum.splits prod.splits)
  from f have s2: "osu_version s2 = osu_version s1" "priv_score_id s2 = priv_score_id s1"
    using read_lzma_loop_keeps [of lib "s1\<lparr>priv_frames := Some []\<rparr>" "frame_tokens data" s2]
    by (simp_all add: read_lzma_frames_def)
  from tr s1 s2 assms(2) have "priv_score_id s' = priv_score_id s2"
    by (auto simp: read_lzma_trailer_def read_score_id_def read_target_practice_def bind_err_def
        split: if_splits option.splits sum.splits prod.splits)
  with s1 s2 show ?thesis by simp
qed

lemma read_lzma_text_exhausted:
  assumes "reader s = Some r" and "int (length (buffer r)) \<le> offset r"
    and "lzma_decompress lib [] = Inl LZMAError"
  shows "read_lzma_text lib s = Inl LZMAError"
  using assms
  by (simp add: read_lzma_text_def read_i32_def read_int_def read_def py_slice_past_end
      py_slice_empty_range int_from_bytes_def bind_err_simps)

text \<open>
  C8, where the code departs from it. Each property looks at its own attribute
  only, and \<^verbatim>\<open>None\<close> is also what the attribute holds when the section has no such
  field. For a replay of a version below 20121008, after \<open>frames\<close> has decoded the
  section and left the cursor at the end of the buffer, reading \<open>score_id\<close> does
  not return the stored result: it runs \<open>read_lzma\<close> again on the exhausted
  cursor, which reads the length 0 and an empty block, and the decompressor
  raises on the empty block.
\<close>

theorem C8_second_access_reads_again:
  assumes "priv_frames self = None" and "priv_score_id self = None"
    and "osu_version self < 20121008"
    and "frames lib self = Inr (fs, self1)"
    and "reader self1 = Some r" and "int (length (buffer r)) \<le> offset r"
    and "lzma_decompress lib [] = Inl LZMAError"
  shows "score_id lib self1 = Inl LZMAError"
proof -
  from assms(1,4) have "read_lzma lib self = Inr self1"
    by (auto simp: frames_def bind_err_def split: sum.splits)
  from read_lzma_keeps_score_id [OF this assms(3)] assms(2)
  have "priv_score_id self1 = None" by simp
  moreover have "read_lzma lib self1 = Inl LZMAError"
    by (simp add: read_lzma_def read_lzma_text_exhausted [OF assms(5,6,7)] bind_err_simps)
  ultimately show ?thesis by (simp add: score_id_def bind_err_simps)
qed


lemma example_block_text:
  "decode_ascii [0x30, 0x7c, 0x31, 0x2e, 0x30, 0x7c, 0x32, 0x2e, 0x30, 0x7c, 0x30, 0x2c]
     = Inr ''0|1.0|2.0|0,''"
  by (simp add: decode_ascii_def char_of_byte_def char_of_def)

lemma example_block_read:
  "read_lzma_text example_library
     ((ReplayFile_new :: rat ReplayFile)\<lparr>reader := Some (BinaryRotator_init example_block)\<rparr>) =
   Inr (''0|1.0|2.0|0,'',
     ReplayFile_new\<lparr>reader := Some \<lparr>buffer = example_block, offset = 16\<rparr>\<rparr>)"
  by (simp add: read_lzma_text_def read_i32_def read_int_def read_def BinaryRotator_init_def
      example_block_def example_text_bytes_def py_slice_def slice_index_def int_from_bytes_def
      example_library_def
      bind_err_simps example_block_text ReplayFile_new_def)


lemma example_block_frames:
  "read_lzma_frames example_library
     ((ReplayFile_new :: rat ReplayFile)\<lparr>reader := Some \<lparr>buffer = example_block, offset = 16\<rparr>\<rparr>)
     ''0|1.0|2.0|0,'' =
   Inr (ReplayFile_new\<lparr>reader := Some \<lparr>buffer = example_block, offset = 16\<rparr>,
      priv_frames := Some [OsuReplayFrame 0 1 2 0]\<rparr>)"
  by (simp add: read_lzma_frames_def frame_tokens_def read_lzma_step_def is_seed_token_def
      make_frame_def append_frame_def py_index_def py_int_def py_float_def int_literal_eval example_library_def
      bind_err_simps ReplayFile_new_def)

lemma example_block_decoded:
  "read_lzma example_library
     ((ReplayFile_new :: rat ReplayFile)\<lparr>reader := Some (BinaryRotator_init example_block)\<rparr>) =
   Inr (ReplayFile_new\<lparr>reader := Some \<lparr>buffer = example_block, offset = 16\<rparr>,
      priv_frames := Some [OsuReplayFrame 0 1 2 0]\<rparr>)"
  unfolding read_lzma_def example_block_read bind_err_simps prod.case example_block_frames
  by (simp add: read_lzma_trailer_def read_score_id_def read_target_practice_def bind_err_simps
      ReplayFile_new_def)

text \<open>
  The example section, version 0: \<open>frames\<close> returns the one frame and leaves the
  cursor at 16, the length of the buffer; \<open>score_id\<close> then raises.
\<close>

theorem C8_second_access_witness:
  "frames example_library
     ((ReplayFile_new :: rat ReplayFile)\<lparr>reader := Some (BinaryRotator_init example_block)\<rparr>) =
   Inr (Some [OsuReplayFrame 0 1 2 0],
     ReplayFile_new\<lparr>reader := Some \<lparr>buffer = example_block, offset = 16\<rparr>,
       priv_frames := Some [OsuReplayFrame 0 1 2 0]\<rparr>)
   \<and> score_id example_library
     ((ReplayFile_new :: rat ReplayFile)\<lparr>reader := Some \<lparr>buffer = example_block, offset = 16\<rparr>,
       priv_frames := Some [OsuReplayFrame 0 1 2 0]\<rparr>) = Inl LZMAError"
proof -
  let ?s0 = "(ReplayFile_new :: rat ReplayFile)\<lparr>reader := Some (BinaryRotator_init example_block)\<rparr>"
  let ?r = "\<lparr>buffer = example_block, offset = 16\<rparr>"
  let ?s1 = "(ReplayFile_new :: rat ReplayFile)\<lparr>reader := Some ?r,
       priv_frames := Some [OsuReplayFrame 0 1 2 0]\<rparr>"
  have f: "frames example_library ?s0 = Inr (Some [OsuReplayFrame 0 1 2 0], ?s1)"
    by (simp add: frames_def example_block_decoded bind_err_simps) (simp add: ReplayFile_new_def)
  have "score_id example_library ?s1 = Inl LZMAError"
  proof (rule C8_second_access_reads_again [OF _ _ _ f, of ?r])
    show "priv_frames ?s0 = None" "priv_score_id ?s0 = None" "osu_version ?s0 < 20121008"
      by (simp_all add: ReplayFile_new_def)
    show "reader ?s1 = Some ?r" by simp
    show "int (length (buffer ?r)) \<le> offset ?r"
      by (simp add: example_block_def example_text_bytes_def)
    show "lzma_decompress example_library [] = Inl LZMAError"
      by (simp add: example_library_def)
  qed
  with f show ?thesis by simp
qed

section \<open>Properties of the header\<close>

lemma py_slice_prefix:
  assumes "0 \<le> a" and "0 \<le> n" and "a + n \<le> int (length hdr)"
  shows "py_slice (hdr @ ts) a (a + n) = py_slice hdr a (a + n)"
proof -
  from assms have "a + n \<le> int (length (hdr @ ts))" by simp
  from py_slice_inside(1) [OF assms(1,2) this] py_slice_inside(1) [OF assms]
  show ?thesis using assms by simp
qed

lemma read_agree:
  assumes "buffer c = hdr @ ts" and "0 \<le> offset c" and "0 \<le> n"
    and "offset c + n \<le> int (length hdr)"
  shows "read (c\<lparr>buffer := hdr\<rparr>) n = (fst (read c n), (snd (read c n))\<lparr>buffer := hdr\<rparr>)"
  using py_slice_prefix [OF assms(2,3,4), of ts] assms(1) by (simp add: read_def)

lemma read_int_agree:
  assumes "buffer c = hdr @ ts" and "0 \<le> offset c" and "0 \<le> n"
    and "offset c + n \<le> int (length hdr)" and "read_int c n sg = (v, d)"
  shows "read_int (c\<lparr>buffer := hdr\<rparr>) n sg = (v, d\<lparr>buffer := hdr\<rparr>)"
  using read_agree [OF assms(1,2,3,4)] assms(5)
  by (auto simp: read_int_def split: prod.splits)

lemma read_int_cursor:
  assumes "read_int c n sg = (v, d)"
  shows "d = c\<lparr>offset := offset c + n\<rparr>"
  using assms by (auto simp: read_int_def read_def)

lemma le_uint_nonneg: "0 \<le> le_uint bs"
  by (induction bs) simp_all

lemma read_u8_nonneg: "read_u8 c = (b, d) \<Longrightarrow> 0 \<le> b"
  by (auto simp: read_u8_def read_int_def read_def int_from_bytes_def le_uint_nonneg)

lemma uleb128_loop_cursor:
  "uleb128_loop c v sh = (w, d) \<Longrightarrow> buffer d = buffer c \<and> offset c < offset d"
proof (induction c v sh rule: uleb128_loop.induct)
  case (1 self val shift)
  obtain b r where br: "read_u8 self = (b, r)" by (cases "read_u8 self")
  then have r: "r = self\<lparr>offset := offset self + 1\<rparr>"
    by (simp add: read_u8_def read_int_cursor)
  show ?case
  proof (cases "b AND 128 = 0")
    case True
    with "1.prems" br r show ?thesis
      by (subst (asm) uleb128_loop.simps) (auto simp: Let_def)
  next
    case False
    with "1.prems" br
    have "uleb128_loop r (val OR push_bit shift (b AND 127)) (shift + 7) = (w, d)"
      by (subst (asm) uleb128_loop.simps) (simp add: Let_def)
    from "1.IH" [OF br [symmetric] refl False this] r show ?thesis by simp
  qed
qed

lemma uleb128_loop_nonneg:
  "0 \<le> v \<Longrightarrow> uleb128_loop c v sh = (w, d) \<Longrightarrow> 0 \<le> w"
proof (induction c v sh rule: uleb128_loop.induct)
  case (1 self val shift)
  obtain b r where br: "read_u8 self = (b, r)" by (cases "read_u8 self")
  from read_u8_nonneg [OF br] "1.prems"(1)
  have nn: "0 \<le> val OR push_bit shift (b AND 127)" by simp
  show ?case
  proof (cases "b AND 128 = 0")
    case True
    with "1.prems" br nn show ?thesis
      by (subst (asm) uleb128_loop.simps) (auto simp: Let_def)
  next
    case False
    with "1.prems" br
    have "uleb128_loop r (val OR push_bit shift (b AND 127)) (shift + 7) = (w, d)"
      by (subst (asm) uleb128_loop.simps) (simp add: Let_def)
    from "1.IH" [OF br [symmetric] refl False nn this] show ?thesis .
  qed
qed

lemma uleb128_loop_agree:
  "buffer c = hdr @ ts \<Longrightarrow> 0 \<le> offset c \<Longrightarrow> uleb128_loop c v sh = (w, d)
    \<Longrightarrow> offset d \<le> int (length hdr)
    \<Longrightarrow> uleb128_loop (c\<lparr>buffer := hdr\<rparr>) v sh = (w, d\<lparr>buffer := hdr\<rparr>)"
proof (induction c v sh rule: uleb128_loop.induct)
  case (1 self val shift)
  obtain b r where br: "read_u8 self = (b, r)" by (cases "read_u8 self")
  then have r: "r = self\<lparr>offset := offset self + 1\<rparr>"
    by (simp add: read_u8_def read_int_cursor)
  from uleb128_loop_cursor [OF "1.prems"(3)] "1.prems"(4)
  have "offset self + 1 \<le> int (length hdr)" by simp
  from read_int_agree [OF "1.prems"(1,2) _ this br [unfolded read_u8_def]]
  have br': "read_u8 (self\<lparr>buffer := hdr\<rparr>) = (b, r\<lparr>buffer := hdr\<rparr>)"
    by (simp add: read_u8_def)
  show ?case
  proof (cases "b AND 128 = 0")
    case True
    with "1.prems"(3) br have "w = val OR push_bit shift (b AND 127)" "d = r"
      by (subst (asm) uleb128_loop.simps, simp add: Let_def)+
    with True br' show ?thesis
      by (subst uleb128_loop.simps) (simp add: Let_def)
  next
    case False
    with "1.prems"(3) br
    have rec: "uleb128_loop r (val OR push_bit shift (b AND 127)) (shift + 7) = (w, d)"
      by (subst (asm) uleb128_loop.simps) (simp add: Let_def)
    from r "1.prems"(1,2) have "buffer r = hdr @ ts" "0 \<le> offset r" by simp_all
    from "1.IH" [OF br [symmetric] refl False this rec "1.prems"(4)] False br'
    show ?thesis
      by (subst uleb128_loop.simps) (simp add: Let_def)
  qed
qed


lemma read_string_cursor:
  assumes "read_string c = Inr (v, d)"
  shows "buffer d = buffer c \<and> offset c < offset d"
proof -
  obtain m c1 where m: "read_u8 c = (m, c1)" by (cases "read_u8 c")
  then have c1: "c1 = c\<lparr>offset := offset c + 1\<rparr>"
    by (simp add: read_u8_def read_int_cursor)
  from assms m obtain n c2 where l: "uleb128_loop c1 0 0 = (n, c2)"
    and d: "d = c2\<lparr>offset := offset c2 + n\<rparr>"
    by (cases "uleb128_loop c1 0 0")
      (auto simp: read_string_def read_uleb128_def read_def split: if_splits sum.splits)
  from uleb128_loop_nonneg [OF _ l] have "0 \<le> n" by simp
  with uleb128_loop_cursor [OF l] c1 d show ?thesis by simp
qed

lemma read_string_agree:
  assumes "buffer c = hdr @ ts" and "0 \<le> offset c" and "read_string c = Inr (v, d)"
    and "offset d \<le> int (length hdr)"
  shows "read_string (c\<lparr>buffer := hdr\<rparr>) = Inr (v, d\<lparr>buffer := hdr\<rparr>)"
proof -
  obtain m c1 where m: "read_u8 c = (m, c1)" by (cases "read_u8 c")
  then have c1: "c1 = c\<lparr>offset := offset c + 1\<rparr>"
    by (simp add: read_u8_def read_int_cursor)
  from assms(3) m have m11: "m = 11"
    by (auto simp: read_string_def read_uleb128_def split: if_splits)
  from assms(3) m m11 obtain n c2 where l: "uleb128_loop c1 0 0 = (n, c2)"
    and rd: "decode_utf8 (fst (read c2 n)) = Inr v" and d: "d = snd (read c2 n)"
    by (cases "uleb128_loop c1 0 0")
      (auto simp: read_string_def read_uleb128_def split: sum.splits prod.splits)
  from uleb128_loop_nonneg [OF _ l] have n: "0 \<le> n" by simp
  from d have d': "offset d = offset c2 + n" by (simp add: read_def)
  from uleb128_loop_cursor [OF l] c1 assms(1)
  have c2: "buffer c2 = hdr @ ts" "offset c1 < offset c2" by simp_all
  from c1 assms(1,2) have b1: "buffer c1 = hdr @ ts" "0 \<le> offset c1" by simp_all
  from d' n assms(4) have le2: "offset c2 \<le> int (length hdr)" by simp
  with c2(2) c1 have le1: "offset c + 1 \<le> int (length hdr)" by simp
  from read_int_agree [OF assms(1,2) _ le1 m [unfolded read_u8_def]] m11
  have m': "read_u8 (c\<lparr>buffer := hdr\<rparr>) = (11, c1\<lparr>buffer := hdr\<rparr>)"
    by (simp add: read_u8_def)
  from uleb128_loop_agree [OF b1 l le2]
  have l': "uleb128_loop (c1\<lparr>buffer := hdr\<rparr>) 0 0 = (n, c2\<lparr>buffer := hdr\<rparr>)" .
  from b1(2) c2(2) have "0 \<le> offset c2" by simp
  from read_agree [OF c2(1) this n] d' assms(4)
  have r': "read (c2\<lparr>buffer := hdr\<rparr>) n = (fst (read c2 n), d\<lparr>buffer := hdr\<rparr>)"
    by (simp add: d)
  show ?thesis
    by (simp add: read_string_def read_uleb128_def m' l' r' rd)
qed


lemma parse_data_header_steps:
  "parse_data lib recv self False =
     (case reader self of
        None \<Rightarrow> Inl AttributeError
      | Some r0 \<Rightarrow>
          bind_err (read_string (snd (read_i32 (snd (read_u8 r0))))) (\<lambda>(v_map_md5, r3).
          bind_err (read_string r3) (\<lambda>(v_player_name, r4).
          bind_err (read_string r4) (\<lambda>(v_replay_md5, r5).
          bind_err (read_string (r5\<lparr>offset := offset r5 + 23\<rparr>)) (\<lambda>(v_life_graph, r16).
          bind_err (parse_timestamp (fst (read_i64 r16))) (\<lambda>v_timestamp.
            Inr (self\<lparr>reader := Some (r16\<lparr>offset := offset r16 + 8\<rparr>),
                 mode := fst (read_u8 r0),
                 osu_version := fst (read_i32 (snd (read_u8 r0))),
                 map_md5 := v_map_md5, player_name := v_player_name,
                 replay_md5 := v_replay_md5,
                 n300 := fst (read_u16 r5),
                 n100 := fst (read_u16 (r5\<lparr>offset := offset r5 + 2\<rparr>)),
                 n50 := fst (read_u16 (r5\<lparr>offset := offset r5 + 4\<rparr>)),
                 ngeki := fst (read_u16 (r5\<lparr>offset := offset r5 + 6\<rparr>)),
                 nkatu := fst (read_u16 (r5\<lparr>offset := offset r5 + 8\<rparr>)),
                 nmiss := fst (read_u16 (r5\<lparr>offset := offset r5 + 10\<rparr>)),
                 score := fst (read_i32 (r5\<lparr>offset := offset r5 + 12\<rparr>)),
                 max_combo := fst (read_u16 (r5\<lparr>offset := offset r5 + 16\<rparr>)),
                 perfect := (fst (read_u8 (r5\<lparr>offset := offset r5 + 18\<rparr>)) = 1),
                 mods := fst (read_i32 (r5\<lparr>offset := offset r5 + 19\<rparr>)),
                 life_graph := v_life_graph, timestamp := v_timestamp\<rparr>)))))))"
  by (simp add: parse_data_def read_u8_def read_u16_def read_i32_def read_i64_def read_int_def
      read_def add.commute cong: option.case_cong)


lemma read_int_value_agree:
  assumes "buffer c = hdr @ ts" and "0 \<le> offset c" and "0 \<le> n"
    and "offset c + n \<le> int (length hdr)"
  shows "fst (read_int (c\<lparr>buffer := hdr\<rparr>) n sg) = fst (read_int c n sg)"
  using read_int_agree [OF assms, of sg "fst (read_int c n sg)" "snd (read_int c n sg)"]
  by simp

lemma read_i64_exhausted:
  assumes "int (length (buffer c)) \<le> offset c"
  shows "fst (read_i64 c) = 0"
  using assms by (simp add: read_i64_def read_int_def read_def py_slice_past_end int_from_bytes_def)

text \<open>
  C2, as the code has it. \<open>parse_data\<close> checks no length. Whenever it decodes a
  buffer and stops eight bytes after its first part \<open>hdr\<close>, that is, the timestamp
  is the eight bytes after \<open>hdr\<close>, it also decodes \<open>hdr\<close> alone, a buffer that ends
  before the timestamp: every field is the same, the timestamp is read from no
  bytes as tick 0, and the cursor ends eight bytes past the end of the buffer.
\<close>

theorem C2_header_without_timestamp_parses:
  assumes "parse_data lib recv (self\<lparr>reader := Some (BinaryRotator_init (hdr @ ts))\<rparr>) False = Inr s"
    and "reader s = Some r" and "offset r = int (length hdr) + 8"
  shows "parse_data lib recv (self\<lparr>reader := Some (BinaryRotator_init hdr)\<rparr>) False =
     Inr (s\<lparr>reader := Some (r\<lparr>buffer := hdr\<rparr>), timestamp := 0\<rparr>)"
proof -
  let ?L = "int (length hdr)"
  let ?c0 = "\<lparr>buffer = hdr @ ts, offset = 0\<rparr>"
  let ?c2 = "\<lparr>buffer = hdr @ ts, offset = 5\<rparr>"
  have c2: "snd (read_i32 (snd (read_u8 (BinaryRotator_init (hdr @ ts))))) = ?c2"
    by (simp add: read_i32_def read_u8_def read_int_def read_def BinaryRotator_init_def)
  have c2': "snd (read_i32 (snd (read_u8 (BinaryRotator_init hdr)))) = ?c2\<lparr>buffer := hdr\<rparr>"
    by (simp add: read_i32_def read_u8_def read_int_def read_def BinaryRotator_init_def)
  from assms(1) obtain v3 r3 where s3: "read_string ?c2 = Inr (v3, r3)"
    by (cases "read_string ?c2") (auto simp: parse_data_header_steps c2 bind_err_simps)
  from assms(1) s3 obtain v4 r4 where s4: "read_string r3 = Inr (v4, r4)"
    by (cases "read_string r3") (auto simp: parse_data_header_steps c2 bind_err_simps)
  from assms(1) s3 s4 obtain v5 r5 where s5: "read_string r4 = Inr (v5, r5)"
    by (cases "read_string r4") (auto simp: parse_data_header_steps c2 bind_err_simps)
  let ?c15 = "r5\<lparr>offset := offset r5 + 23\<rparr>"
  from assms(1) s3 s4 s5 obtain v16 r16 where s16: "read_string ?c15 = Inr (v16, r16)"
    by (cases "read_string ?c15") (auto simp: parse_data_header_steps c2 bind_err_simps)
  from assms(1) s3 s4 s5 s16 obtain vt where
    st: "parse_timestamp (fst (read_i64 r16)) = Inr vt"
    by (cases "parse_timestamp (fst (read_i64 r16))")
      (auto simp: parse_data_header_steps c2 bind_err_simps)
  from assms(1) s3 s4 s5 s16 st
  have s: "s = self\<lparr>reader := Some (r16\<lparr>offset := offset r16 + 8\<rparr>),
                 mode := fst (read_u8 (BinaryRotator_init (hdr @ ts))),
                 osu_version := fst (read_i32 (snd (read_u8 (BinaryRotator_init (hdr @ ts))))),
                 map_md5 := v3, player_name := v4, replay_md5 := v5,
                 n300 := fst (read_u16 r5),
                 n100 := fst (read_u16 (r5\<lparr>offset := offset r5 + 2\<rparr>)),
                 n50 := fst (read_u16 (r5\<lparr>offset := offset r5 + 4\<rparr>)),
                 ngeki := fst (read_u16 (r5\<lparr>offset := offset r5 + 6\<rparr>)),
                 nkatu := fst (read_u16 (r5\<lparr>offset := offset r5 + 8\<rparr>)),
                 nmiss := fst (read_u16 (r5\<lparr>offset := offset r5 + 10\<rparr>)),
                 score := fst (read_i32 (r5\<lparr>offset := offset r5 + 12\<rparr>)),
                 max_combo := fst (read_u16 (r5\<lparr>offset := offset r5 + 16\<rparr>)),
                 perfect := (fst (read_u8 (r5\<lparr>offset := offset r5 + 18\<rparr>)) = 1),
                 mods := fst (read_i32 (r5\<lparr>offset := offset r5 + 19\<rparr>)),
                 life_graph := v16, timestamp := vt\<rparr>"
    by (simp add: parse_data_header_steps c2 bind_err_simps)
  with assms(2) have r: "r = r16\<lparr>offset := offset r16 + 8\<rparr>" by simp
  with assms(3) have o16: "offset r16 = ?L" by simp
  from read_string_cursor [OF s3] have b3: "buffer r3 = hdr @ ts" and o3: "5 < offset r3" by simp_all
  from read_string_cursor [OF s4] b3 have b4: "buffer r4 = hdr @ ts" and o4: "offset r3 < offset r4"
    by simp_all
  from read_string_cursor [OF s5] b4 have b5: "buffer r5 = hdr @ ts" and o5: "offset r4 < offset r5"
    by simp_all
  from read_string_cursor [OF s16] b5 have b16: "buffer r16 = hdr @ ts"
    and o15: "offset r5 + 23 < offset r16" by simp_all
  from o3 o4 o5 o15 o16 have le: "offset r3 \<le> ?L" "offset r4 \<le> ?L" "offset r5 \<le> ?L"
    "offset r5 + 23 \<le> ?L" "0 \<le> offset r3" "0 \<le> offset r4" "0 \<le> offset r5" "5 < ?L"
    by simp_all
  have t3: "read_string (?c2\<lparr>buffer := hdr\<rparr>) = Inr (v3, r3\<lparr>buffer := hdr\<rparr>)"
    using le by (intro read_string_agree [OF _ _ s3]) simp_all
  have t4: "read_string (r3\<lparr>buffer := hdr\<rparr>) = Inr (v4, r4\<lparr>buffer := hdr\<rparr>)"
    using le b3 by (intro read_string_agree [OF _ _ s4]) simp_all
  have t5: "read_string (r4\<lparr>buffer := hdr\<rparr>) = Inr (v5, r5\<lparr>buffer := hdr\<rparr>)"
    using le b4 by (intro read_string_agree [OF _ _ s5]) simp_all
  have t16: "read_string (?c15\<lparr>buffer := hdr\<rparr>) = Inr (v16, r16\<lparr>buffer := hdr\<rparr>)"
    using le b5 o16 by (intro read_string_agree [OF _ _ s16]) simp_all
  have tt: "fst (read_i64 (r16\<lparr>buffer := hdr\<rparr>)) = 0"
    using o16 by (intro read_i64_exhausted) simp
  have pt: "parse_timestamp 0 = Inr 0" by (simp add: parse_timestamp_def)
  have v0: "fst (read_u8 (BinaryRotator_init hdr)) = fst (read_u8 (BinaryRotator_init (hdr @ ts)))"
    using read_int_value_agree [of ?c0 hdr ts 1 False] le
    by (simp add: read_u8_def BinaryRotator_init_def)
  have v1: "fst (read_i32 (snd (read_u8 (BinaryRotator_init hdr)))) =
      fst (read_i32 (snd (read_u8 (BinaryRotator_init (hdr @ ts)))))"
    using read_int_value_agree [of "\<lparr>buffer = hdr @ ts, offset = 1\<rparr>" hdr ts 4 True] le
    by (simp add: read_u8_def read_i32_def read_int_def read_def BinaryRotator_init_def)
  have eqk: "r5\<lparr>buffer := hdr, offset := x\<rparr> = (r5\<lparr>offset := x\<rparr>)\<lparr>buffer := hdr\<rparr>" for x
    by (rule BinaryRotator.equality) simp_all
  have vk: "fst (read_int (r5\<lparr>buffer := hdr, offset := offset r5 + k\<rparr>) n sg) =
      fst (read_int (r5\<lparr>offset := offset r5 + k\<rparr>) n sg)"
    if "0 \<le> k" "0 \<le> n" "k + n \<le> 23" for k n sg
    unfolding eqk
    by (rule read_int_value_agree [where ts = ts]) (use le b5 that in simp_all)
  have vk0: "fst (read_int (r5\<lparr>buffer := hdr\<rparr>) n sg) = fst (read_int r5 n sg)"
    if "0 \<le> n" "n \<le> 23" for n sg
    using read_int_value_agree [of r5 hdr ts n sg] le b5 that by simp
  have fields:
    "fst (read_u16 (r5\<lparr>buffer := hdr\<rparr>)) = fst (read_u16 r5)"
    "fst (read_u16 (r5\<lparr>buffer := hdr, offset := offset r5 + 2\<rparr>)) =
       fst (read_u16 (r5\<lparr>offset := offset r5 + 2\<rparr>))"
    "fst (read_u16 (r5\<lparr>buffer := hdr, offset := offset r5 + 4\<rparr>)) =
       fst (read_u16 (r5\<lparr>offset := offset r5 + 4\<rparr>))"
    "fst (read_u16 (r5\<lparr>buffer := hdr, offset := offset r5 + 6\<rparr>)) =
       fst (read_u16 (r5\<lparr>offset := offset r5 + 6\<rparr>))"
    "fst (read_u16 (r5\<lparr>buffer := hdr, offset := offset r5 + 8\<rparr>)) =
       fst (read_u16 (r5\<lparr>offset := offset r5 + 8\<rparr>))"
    "fst (read_u16 (r5\<lparr>buffer := hdr, offset := offset r5 + 10\<rparr>)) =
       fst (read_u16 (r5\<lparr>offset := offset r5 + 10\<rparr>))"
    "fst (read_i32 (r5\<lparr>buffer := hdr, offset := offset r5 + 12\<rparr>)) =
       fst (read_i32 (r5\<lparr>offset := offset r5 + 12\<rparr>))"
    "fst (read_u16 (r5\<lparr>buffer := hdr, offset := offset r5 + 16\<rparr>)) =
       fst (read_u16 (r5\<lparr>offset := offset r5 + 16\<rparr>))"
    "fst (read_u8 (r5\<lparr>buffer := hdr, offset := offset r5 + 18\<rparr>)) =
       fst (read_u8 (r5\<lparr>offset := offset r5 + 18\<rparr>))"
    "fst (read_i32 (r5\<lparr>buffer := hdr, offset := offset r5 + 19\<rparr>)) =
       fst (read_i32 (r5\<lparr>offset := offset r5 + 19\<rparr>))"
    by (simp_all add: read_u8_def read_u16_def read_i32_def vk vk0)
  have t16': "read_string (r5\<lparr>buffer := hdr, offset := offset r5 + 23\<rparr>) =
      Inr (v16, r16\<lparr>buffer := hdr\<rparr>)"
    unfolding eqk by (rule t16)
  show ?thesis
    unfolding parse_data_header_steps
    by (simp add: c2' t3 [simplified] t4 t5 t16' tt pt v0 v1 bind_err_simps s r fields)
qed


lemma example_parse_0:
  "parse_data example_library Instance
     (ReplayFile_new\<lparr>reader := Some (BinaryRotator_init (example_header 0 @ example_timestamp))\<rparr>)
     False =
   Inr (ReplayFile_new\<lparr>reader := Some \<lparr>buffer = example_header 0 @ example_timestamp, offset = 46\<rparr>,
     player_name := ''AB'', n300 := 300, perfect := True, timestamp := 1\<rparr>)"
  by code_simp


text \<open>
  The example header of 38 bytes, without its timestamp: decoded, with the
  timestamp of tick 0 and the cursor at 46.
\<close>

theorem C2_header_without_timestamp_witness:
  "parse_data example_library Instance
     (ReplayFile_new\<lparr>reader := Some (BinaryRotator_init (example_header 0))\<rparr>) False =
   Inr (ReplayFile_new\<lparr>reader := Some \<lparr>buffer = example_header 0, offset = 46\<rparr>,
     player_name := ''AB'', n300 := 300, perfect := True, timestamp := 0\<rparr>)"
proof -
  have "length (example_header 0) = 38" by (simp add: example_header_def)
  then show ?thesis
    using C2_header_without_timestamp_parses [OF example_parse_0,
        of "\<lparr>buffer = example_header 0 @ example_timestamp, offset = 46\<rparr>"]
    by (simp add: ReplayFile_new_def)
qed

text \<open>
  C2 as the specification states it fails: the 38 bytes are shorter than any
  complete header (the timestamp's eight bytes are missing), and \<open>from_file\<close>
  returns the record all the same, its timestamp that of tick 0.
\<close>

theorem C2_counterexample:
  "length (example_header 0) = 38
   \<and> from_file example_library (example_header 0) False =
     Inr (Instance, ReplayFile_new\<lparr>reader := Some \<lparr>buffer = example_header 0, offset = 46\<rparr>,
       player_name := ''AB'', n300 := 300, perfect := True\<rparr>)"
  by code_simp

section \<open>Properties of the entry points\<close>

lemma ReplayFile_init_new: "ReplayFile_init (cls :: 'f ReplayFile) = ReplayFile_new"
  by (cases cls) (simp add: ReplayFile_init_def ReplayFile_new_def)




lemma parse_lzma_loop_class:
  assumes "parse_lzma_loop lib ClassObject s toks = Inr s'"
  shows "s' = s"
  using assms
proof (induction toks arbitrary: s)
  case Nil
  then show ?case by simp
next
  case (Cons a toks)
  then obtain s1 where s1: "parse_lzma_step lib ClassObject s a = Inr s1"
    and rest: "parse_lzma_loop lib ClassObject s1 toks = Inr s'"
    by (auto simp: bind_err_def split: sum.splits)
  from s1 have "s1 = s"
    by (auto simp: parse_lzma_step_def is_seed_token_def bind_err_def
        split: sum.splits if_splits)
  with Cons.IH [OF rest] show ?case by simp
qed

text \<open>
  Whenever \<open>from_bytes\<close> with \<open>pure_lzma\<close> returns at all, it has stored no frames.
\<close>

lemma from_bytes_pure_lzma_no_frames:
  assumes "from_bytes lib cls bytedata True = Inr (k, s)"
  shows "priv_frames s = None"
proof -
  let ?c = "(ReplayFile_new :: 'a ReplayFile)\<lparr>reader := Some (BinaryRotator_init bytedata)\<rparr>"
  from assms obtain data where "parse_lzma_loop lib ClassObject ?c (frame_tokens data) = Inr s"
    by (auto simp: from_bytes_def ReplayFile_init_new parse_data_def parse_lzma_def bind_err_def
        Let_def split: sum.splits)
  from parse_lzma_loop_class [OF this] show ?thesis by (simp add: ReplayFile_new_def)
qed

text \<open>
  C9, where the code departs from it. With \<open>pure_lzma\<close>, as soon as the
  decompressed text has a token that makes a Standard frame, \<open>from_bytes\<close> raises
  \<^verbatim>\<open>AttributeError\<close>: \<^verbatim>\<open>self\<close> is the class, \<^verbatim>\<open>self.frames\<close> is the property object and
  has no \<^verbatim>\<open>append\<close>. \<open>from_file\<close> raises \<^verbatim>\<open>TypeError\<close> before it decompresses
  anything, the method being called with \<^verbatim>\<open>self\<close> twice. No frame sequence is
  produced on either way in.
\<close>

theorem C9_pure_lzma_entry_fails:
  assumes "lzma_decompress lib bytedata = Inr raw" and "decode_ascii raw = Inr data"
    and "frame_tokens data = action # rest" and "make_frame lib 0 action = Inr fr"
  shows "from_bytes lib cls bytedata True = Inl AttributeError
    \<and> from_file lib bytedata True = Inl TypeError"
proof -
  let ?c = "(ReplayFile_new :: 'a ReplayFile)\<lparr>reader := Some (BinaryRotator_init bytedata)\<rparr>"
  have v: "osu_version ?c = 0" by (simp add: ReplayFile_new_def)
  have "parse_lzma_step lib ClassObject ?c action = Inl AttributeError"
    using assms(4) by (simp add: parse_lzma_step_def is_seed_token_def v bind_err_simps)
  then have "parse_lzma lib ClassObject ?c = Inl AttributeError"
    using assms(1,2,3)
    by (simp add: parse_lzma_def BinaryRotator_init_def bind_err_simps)
  then have "from_bytes lib cls bytedata True = Inl AttributeError"
    by (simp add: from_bytes_def ReplayFile_init_new parse_data_def bind_err_simps)
  moreover have "from_file lib bytedata True = Inl TypeError"
    by (simp add: from_file_def parse_data_def bind_err_simps)
  ultimately show ?thesis by simp
qed

lemma example_text_decodes: "decode_ascii example_text_bytes = Inr ''0|1.0|2.0|0,''"
  by (simp add: example_text_bytes_def decode_ascii_def char_of_byte_def char_of_def)

text \<open>
  The block of the one frame \<^verbatim>\<open>0|1.0|2.0|0,\<close> as the only content of the buffer.
\<close>

theorem C9_pure_lzma_entry_witness:
  "from_bytes example_library ReplayFile_new example_text_bytes True = Inl AttributeError
   \<and> from_file example_library example_text_bytes True = Inl TypeError"
proof (rule C9_pure_lzma_entry_fails)
  show "lzma_decompress example_library example_text_bytes = Inr example_text_bytes"
    by (simp add: example_library_def example_text_bytes_def)
  show "decode_ascii example_text_bytes = Inr ''0|1.0|2.0|0,''"
    by (rule example_text_decodes)
  show "frame_tokens ''0|1.0|2.0|0,'' = [''0'', ''1.0'', ''2.0'', ''0''] # []"
    by (simp add: frame_tokens_def)
  show "make_frame example_library 0 [''0'', ''1.0'', ''2.0'', ''0''] =
      Inr (Some (OsuReplayFrame 0 1 2 0))"
    by (simp add: make_frame_def py_index_def py_int_def py_float_def int_literal_eval
        example_library_def bind_err_simps)
qed

end
